theory Spec2Isabelle
  imports Main "HOL-Library.List_Lexorder" "HOL-Library.Char_ord"
begin

section \<open>lightlab.laboratory.state: the record of the lab and its persistence\<close>

text \<open>
  A shallow embedding of \<^verbatim>\<open>src/lightlab/laboratory/state.py\<close>. Python objects are
  values, every \<^verbatim>\<open>raise\<close> is a value of the type \<open>error\<close>, the module's logger is
  a list of entries returned by each operation, and the file system is a map from
  paths to file contents.
\<close>

subsection \<open>Entities\<close>

text \<open>
  Modelled from the spec: the classes Host, LocalHost, Bench, Instrument and Device of
  \<^verbatim>\<open>lightlab.laboratory.instruments\<close> are imported by state.py and are not part of the
  sources at hand. Each constructor carries the attributes state.py reads: \<^verbatim>\<open>name\<close>,
  \<^verbatim>\<open>ports\<close>, \<^verbatim>\<open>bench\<close>, \<^verbatim>\<open>host\<close>, \<^verbatim>\<open>mac_address\<close>, \<^verbatim>\<open>hostname\<close>, \<^verbatim>\<open>os\<close>; whether
  \<^verbatim>\<open>isinstance(h, LocalHost)\<close> holds (the spec's is-local flag); and the entries
  \<^verbatim>\<open>__dict__['instruments']\<close> and \<^verbatim>\<open>__dict__['devices']\<close> that only documents of
  schema version 1 carry (\<open>None\<close> when the key is absent, as in version 2, where a
  bench is its name).
\<close>

datatype Bench =
  Bench (bench_name: string)
        (bench_dict_instruments: "Instrument list option")
        (bench_dict_devices: "Device list option")
and Host =
  Host (host_name: string)
       (mac_address: "string option")
       (hostname: "string option")
       (os: "string option")
       (is_LocalHost: bool)
       (host_dict_instruments: "Instrument list option")
and Instrument =
  Instrument (instrument_name: string)
             (instrument_ports: "string list")
             (instrument_bench: "Bench option")
             (instrument_host: "Host option")
and Device =
  Device (device_name: string)
         (device_ports: "string list")
         (device_bench: "Bench option")

text \<open>
  The keys of a connection are instruments or devices; \<^verbatim>\<open>k1.ports\<close> is read from
  either.
\<close>

datatype entity = InstrumentKey Instrument | DeviceKey Device

fun ports :: "entity \<Rightarrow> string list" where
  "ports (InstrumentKey i) = instrument_ports i"
| "ports (DeviceKey d) = device_ports d"

text \<open>
  A connection is a Python dict from entities to port names. It is modelled by the
  list of its items, \<^verbatim>\<open>connection.items()\<close>, in the dict's iteration order; the keys
  of a dict are distinct. Two dicts are equal (\<^verbatim>\<open>==\<close>) when they have the same items,
  whatever the order.
\<close>

type_synonym connection = "(entity \<times> string) list"

definition dict_eq :: "connection \<Rightarrow> connection \<Rightarrow> bool" where
  "dict_eq a b = (set a \<subseteq> set b \<and> set b \<subseteq> set a)"

subsection \<open>Errors and the logger\<close>

text \<open>
  One constructor for each exception state.py can raise, named after the Python
  class and, where the class is RuntimeError, after the message.
\<close>

datatype error =
    FileNotFoundError
  | JSONDecodeError
  | KeyError string
  | AssertionError
  | NotImplementedError string
  | RuntimeError_corrupted string string
      \<comment> \<open>\<^verbatim>\<open>"Labstate is corrupted. {} vs {}."\<close>\<close>
  | RuntimeError_newer
      \<comment> \<open>\<^verbatim>\<open>"Stored Labstate version is newer than current software. ..."\<close>\<close>
  | RuntimeError_port string entity
      \<comment> \<open>\<^verbatim>\<open>"Port '{}' is not in '{}: {}'"\<close>\<close>
  | RuntimeError_exists string
      \<comment> \<open>raised by TypedList when the name is already in the list\<close>

text \<open>
  The entries of the logger. Where the source formats an object into the message, the
  entry carries the object: the exception whose message is logged, or the connection.
\<close>

datatype log_entry =
    Debug string
  | Info string
  | Warning string
  | Error string
  | Exception error
  | Error_message error
      \<comment> \<open>\<^verbatim>\<open>logger.error\<close> of the message the exception is raised with\<close>
  | Warning_deleting connection
      \<comment> \<open>\<^verbatim>\<open>"Deleting existing connection {}."\<close>\<close>
  | Warning_exists connection
      \<comment> \<open>\<^verbatim>\<open>"Connection already exists: %s"\<close>\<close>

subsection \<open>TypedList\<close>

text \<open>
  Modelled from the spec: the class TypedList of \<^verbatim>\<open>lightlab.laboratory\<close> is imported
  by state.py and is not part of the sources at hand. The spec describes the four
  collections as uniquely keyed by name: appending "fails with a DuplicateNameError if
  the name already exists", assignment by name "inserts or overwrites by name",
  deletion is by name. A TypedList is the list of its elements; \<open>nm\<close> reads the name.
\<close>

definition TypedList_append :: "('a \<Rightarrow> string) \<Rightarrow> 'a list \<Rightarrow> 'a \<Rightarrow> error + 'a list" where
  "TypedList_append nm xs x =
     (if nm x \<in> set (map nm xs) then Inl (RuntimeError_exists (nm x)) else Inr (xs @ [x]))"

definition TypedList_setitem :: "('a \<Rightarrow> string) \<Rightarrow> 'a list \<Rightarrow> string \<Rightarrow> 'a \<Rightarrow> 'a list" where
  "TypedList_setitem nm xs n x =
     (if n \<in> set (map nm xs) then map (\<lambda>y. if nm y = n then x else y) xs else xs @ [x])"

definition TypedList_delitem :: "('a \<Rightarrow> string) \<Rightarrow> 'a list \<Rightarrow> string \<Rightarrow> 'a list" where
  "TypedList_delitem nm xs n = filter (\<lambda>y. nm y \<noteq> n) xs"

fun TypedList_extend :: "('a \<Rightarrow> string) \<Rightarrow> 'a list \<Rightarrow> 'a list \<Rightarrow> error + 'a list" where
  "TypedList_extend nm xs [] = Inr xs"
| "TypedList_extend nm xs (y # ys) =
     (case TypedList_append nm xs y of
        Inl e \<Rightarrow> Inl e
      | Inr xs' \<Rightarrow> TypedList_extend nm xs' ys)"

subsection \<open>LabState\<close>

text \<open>
  The instance attributes of \<^verbatim>\<open>LabState\<close>. The class attribute \<^verbatim>\<open>__version__ = 2\<close> is the
  value a new instance reads; \<^verbatim>\<open>loadState\<close> overwrites it on the instance it returns.
\<close>

record LabState =
  version :: int
  sha256 :: "string option"
  user :: "string option"
  datetime :: "string option"
  filename_attr :: "string option"
  hosts :: "Host list"
  benches :: "Bench list"
  connections :: "connection list"
  devices :: "Device list"
  instruments :: "Instrument list"

definition current_version :: int where
  "current_version = 2"

subsection \<open>updateHost\<close>

text \<open>
  The first loop of \<^verbatim>\<open>updateHost\<close>: \<^verbatim>\<open>localhost_name\<close> ends as the name of the last
  LocalHost of \<^verbatim>\<open>self.hosts\<close>; each LocalHost met after another one logs a warning.
\<close>

fun scan_localhost :: "Host list \<Rightarrow> string option \<Rightarrow> string option \<times> log_entry list" where
  "scan_localhost [] localhost_name = (localhost_name, [])"
| "scan_localhost (old_host # rest) localhost_name =
     (if is_LocalHost old_host then
        (let (r, l) = scan_localhost rest (Some (host_name old_host))
         in (r, (if localhost_name \<noteq> None
                 then [Warning ''Duplicate localhost found in lab.hosts''] else []) @ l))
      else scan_localhost rest localhost_name)"

text \<open>
  The second loop. Its state is \<^verbatim>\<open>localhost_name\<close>, \<^verbatim>\<open>self.hosts\<close> and the log;
  \<^verbatim>\<open>old_hostnames\<close> is fixed before the loop.
\<close>

definition not_updating_message :: "string \<Rightarrow> string \<Rightarrow> string" where
  "not_updating_message localhost_name new_name =
     ''Localhost is already present: '' @ localhost_name @ [CHR 0x0A] @
     ''Not updating host '' @ new_name @ ''!''"

fun update_hosts_loop ::
  "string list \<Rightarrow> Host list \<Rightarrow> string option \<times> Host list \<times> log_entry list
     \<Rightarrow> string option \<times> Host list \<times> log_entry list" where
  "update_hosts_loop old_hostnames [] st = st"
| "update_hosts_loop old_hostnames (new_host # rest) (localhost_name, hs, lg) =
     (if is_LocalHost new_host \<and> localhost_name \<noteq> None
         \<and> Some (host_name new_host) \<noteq> localhost_name
      then update_hosts_loop old_hostnames rest
             (localhost_name, hs,
              lg @ [Warning (not_updating_message (the localhost_name) (host_name new_host))])
      else
        (let ln1 = (if is_LocalHost new_host \<and> localhost_name \<noteq> None
                    then Some (host_name new_host) else localhost_name);
             overwrite = (host_name new_host \<in> set old_hostnames);
             lg1 = (if overwrite
                    then lg @ [Info (''Overwriting host: '' @ host_name new_host)] else lg);
             ln2 = (if overwrite \<and> Some (host_name new_host) = ln1 \<and> \<not> is_LocalHost new_host
                    then None else ln1)
         in update_hosts_loop old_hostnames rest
              (ln2, TypedList_setitem host_name hs (host_name new_host) new_host, lg1)))"

definition updateHost :: "LabState \<Rightarrow> Host list \<Rightarrow> LabState \<times> log_entry list" where
  "updateHost self new_hosts =
     (let (localhost_name, lg0) = scan_localhost (hosts self) None;
          old_hostnames = map host_name (hosts self);
          (ln, hs, lg) = update_hosts_loop old_hostnames new_hosts (localhost_name, hosts self, lg0)
      in (self\<lparr>hosts := hs\<rparr>,
          lg @ (if ln = None then [Warning ''Localhost not yet present''] else [])))"

subsection \<open>updateBench\<close>

fun updateBench :: "LabState \<Rightarrow> Bench list \<Rightarrow> LabState" where
  "updateBench self [] = self"
| "updateBench self (bench # rest) =
     updateBench (self\<lparr>benches := TypedList_setitem bench_name (benches self) (bench_name bench) bench\<rparr>) rest"

subsection \<open>deleteInstrumentFromName\<close>

text \<open>
  The result is the exception raised, if any, and the state the call leaves behind.
\<close>

definition deleteInstrumentFromName :: "LabState \<Rightarrow> string \<Rightarrow> error option \<times> LabState" where
  "deleteInstrumentFromName self name =
     (let matching_instruments = filter (\<lambda>x. instrument_name x = name) (instruments self)
      in if length matching_instruments \<noteq> 1 then (Some AssertionError, self)
         else (None, self\<lparr>instruments := TypedList_delitem instrument_name (instruments self) name\<rparr>))"

subsection \<open>insertInstrument and insertDevice\<close>

text \<open>
  \<^verbatim>\<open>self.benches.append(bench)\<close> after the test \<^verbatim>\<open>bench not in self.benches\<close>, with its
  warning. The test is membership by equality of the objects; the append still fails
  when another bench of the same name is in the list.
\<close>

definition register_bench ::
  "LabState \<Rightarrow> Bench option \<Rightarrow> error option \<times> LabState \<times> log_entry list" where
  "register_bench self b =
     (case b of
        None \<Rightarrow> (None, self, [])
      | Some bench \<Rightarrow>
          if bench \<in> set (benches self) then (None, self, [])
          else (case TypedList_append bench_name (benches self) bench of
                  Inl e \<Rightarrow> (Some e, self, [Warning (''Insterting *new* bench '' @ bench_name bench)])
                | Inr bs \<Rightarrow> (None, self\<lparr>benches := bs\<rparr>,
                             [Warning (''Insterting *new* bench '' @ bench_name bench)])))"

definition register_host ::
  "LabState \<Rightarrow> Host option \<Rightarrow> error option \<times> LabState \<times> log_entry list" where
  "register_host self h =
     (case h of
        None \<Rightarrow> (None, self, [])
      | Some host \<Rightarrow>
          if host \<in> set (hosts self) then (None, self, [])
          else (case TypedList_append host_name (hosts self) host of
                  Inl e \<Rightarrow> (Some e, self, [Warning (''Inserting *new* host '' @ host_name host)])
                | Inr hs \<Rightarrow> (None, self\<lparr>hosts := hs\<rparr>,
                             [Warning (''Inserting *new* host '' @ host_name host)])))"

definition insertInstrument ::
  "LabState \<Rightarrow> Instrument \<Rightarrow> error option \<times> LabState \<times> log_entry list" where
  "insertInstrument self instrument =
     (case TypedList_append instrument_name (instruments self) instrument of
        Inl e \<Rightarrow> (Some e, self, [])
      | Inr is \<Rightarrow>
          (case register_bench (self\<lparr>instruments := is\<rparr>) (instrument_bench instrument) of
             (Some e, s1, l1) \<Rightarrow> (Some e, s1, l1)
           | (None, s1, l1) \<Rightarrow>
               (case register_host s1 (instrument_host instrument) of
                  (r, s2, l2) \<Rightarrow> (r, s2, l1 @ l2))))"

definition insertDevice ::
  "LabState \<Rightarrow> Device \<Rightarrow> error option \<times> LabState \<times> log_entry list" where
  "insertDevice self device =
     (case TypedList_append device_name (devices self) device of
        Inl e \<Rightarrow> (Some e, self, [])
      | Inr ds \<Rightarrow> register_bench (self\<lparr>devices := ds\<rparr>) (device_bench device))"

subsection \<open>updateConnections\<close>

text \<open>
  The verification loops: the first item, in iteration order, whose port is not one of
  its entity's ports raises.
\<close>

fun verify_items :: "(entity \<times> string) list \<Rightarrow> error option" where
  "verify_items [] = None"
| "verify_items ((k1, v1) # rest) =
     (if v1 \<notin> set (ports k1) then Some (RuntimeError_port v1 k1) else verify_items rest)"

fun verify_ports :: "connection list \<Rightarrow> error option" where
  "verify_ports [] = None"
| "verify_ports (connection # rest) =
     (case verify_items connection of
        Some e \<Rightarrow> Some e
      | None \<Rightarrow> verify_ports rest)"

fun check_if_port_is_not_connected :: "connection \<Rightarrow> entity \<Rightarrow> string \<Rightarrow> bool" where
  "check_if_port_is_not_connected [] k1 v1 = True"
| "check_if_port_is_not_connected ((k2, v2) # rest) k1 v1 =
     (if (k1, v1) = (k2, v2) then False else check_if_port_is_not_connected rest k1 v1)"

text \<open>
  The removal loops: for each item of each incoming connection, \<^verbatim>\<open>self.connections\<close>
  is filtered in place.
\<close>

fun remove_items :: "(entity \<times> string) list \<Rightarrow> connection list \<Rightarrow> connection list" where
  "remove_items [] cs = cs"
| "remove_items ((k1, v1) # rest) cs =
     remove_items rest (filter (\<lambda>x. check_if_port_is_not_connected x k1 v1) cs)"

fun remove_old :: "connection list \<Rightarrow> connection list \<Rightarrow> connection list" where
  "remove_old [] cs = cs"
| "remove_old (connection # rest) cs = remove_old rest (remove_items connection cs)"

text \<open>
  The addition loop: \<^verbatim>\<open>connection not in self.connections\<close> compares dicts with
  \<^verbatim>\<open>==\<close>.
\<close>

definition connection_in :: "connection \<Rightarrow> connection list \<Rightarrow> bool" where
  "connection_in c cs = list_ex (dict_eq c) cs"

fun add_new :: "connection list \<Rightarrow> connection list \<Rightarrow> connection list" where
  "add_new [] cs = cs"
| "add_new (connection # rest) cs =
     add_new rest (if connection_in connection cs then cs else cs @ [connection])"

text \<open>The warnings of the two loops, in the order they are logged.\<close>

fun remove_items_log :: "(entity \<times> string) list \<Rightarrow> connection list \<Rightarrow> log_entry list" where
  "remove_items_log [] cs = []"
| "remove_items_log ((k1, v1) # rest) cs =
     map Warning_deleting
         (filter (\<lambda>x. \<not> check_if_port_is_not_connected x k1 v1) cs)
     @ remove_items_log rest (filter (\<lambda>x. check_if_port_is_not_connected x k1 v1) cs)"

fun remove_old_log :: "connection list \<Rightarrow> connection list \<Rightarrow> log_entry list" where
  "remove_old_log [] cs = []"
| "remove_old_log (connection # rest) cs =
     remove_items_log connection cs @ remove_old_log rest (remove_items connection cs)"

fun add_new_log :: "connection list \<Rightarrow> connection list \<Rightarrow> log_entry list" where
  "add_new_log [] cs = []"
| "add_new_log (connection # rest) cs =
     (if connection_in connection cs
      then Warning_exists connection # add_new_log rest cs
      else add_new_log rest (cs @ [connection]))"

definition updateConnections ::
  "LabState \<Rightarrow> connection list \<Rightarrow> error option \<times> LabState \<times> log_entry list" where
  "updateConnections self conns =
     (case verify_ports conns of
        Some e \<Rightarrow> (Some e, self, [Error_message e])
      | None \<Rightarrow>
          (let cs1 = remove_old conns (connections self)
           in (None, self\<lparr>connections := add_new conns cs1\<rparr>,
               remove_old_log conns (connections self) @ add_new_log conns cs1)))"

subsection \<open>The environment\<close>

text \<open>
  What state.py takes from outside the repository: hashlib's SHA-256, the encoder and
  the decoder of the JSON backend of jsonpickle, the user and the clock, pathlib's name
  of the backup file, and the module variable \<^verbatim>\<open>_filename\<close> computed at import.
\<close>

record 'c document =
  doc_version :: "int option"
  doc_sha256 :: "string option"
  doc_user :: "string option"
  doc_datetime :: "string option"
  doc_hosts :: "Host list"
  doc_benches :: "Bench list"
  doc_connections :: "'c list"
  doc_devices :: "Device list"
  doc_instruments :: "Instrument list"

text \<open>
  \<^verbatim>\<open>json_state\<close>, the dict that \<^verbatim>\<open>__toJSON\<close> builds and \<^verbatim>\<open>loadState\<close> takes apart. The
  four metadata keys \<^verbatim>\<open>__version__\<close>, \<^verbatim>\<open>__sha256__\<close>, \<^verbatim>\<open>__user__\<close>, \<^verbatim>\<open>__datetime__\<close> are
  \<open>None\<close> when the key is absent from the dict.

  Modelled from the spec: the other keys are what jsonpickle's Pickler writes for a
  LabState, through the classes Hashable and TypedList of \<^verbatim>\<open>lightlab.laboratory\<close> that
  are not part of the sources at hand; the spec (External interfaces) gives them as "the
  flattened entity graph: collections of hosts, benches, instruments, devices, and a
  list of connection pairs", resolved back into object references on load. The spec
  has the four collections "uniquely-keyed" and "keyed by name": in the document a
  collection is a map from the names to the entities, as a connection is a map from
  the entities to the ports, and a map is held as the list of its entries, whose order
  is the order of insertion and carries no meaning.
\<close>

type_synonym json_state = "connection document"

record env =
  sha256_hexdigest :: "string \<Rightarrow> string"
  json_dumps :: "json_state \<Rightarrow> string"
  json_loads :: "string \<Rightarrow> json_state option"
  getuser :: string
  now_strftime :: string
  now_isoformat :: string
  path_stem :: "string \<Rightarrow> string"
  path_with_name :: "string \<Rightarrow> string \<Rightarrow> string"
  module_filename :: string

definition timestamp_string :: "env \<Rightarrow> string" where
  "timestamp_string e = now_isoformat e"

definition hash_sha256 :: "env \<Rightarrow> string \<Rightarrow> string" where
  "hash_sha256 e string = sha256_hexdigest e string"

text \<open>
  Modelled from the spec: the key under which an entity is written where it is the key
  of a map. The spec has the cross-references "expressed as stable identifiers" and
  the entities identified by their unique names; the identifier is the kind of the
  entity and its name.
\<close>

fun entity_key :: "entity \<Rightarrow> string" where
  "entity_key (InstrumentKey i) = ''Instrument '' @ instrument_name i"
| "entity_key (DeviceKey d) = ''Device '' @ device_name d"

text \<open>
  \<^verbatim>\<open>jsonpickle.set_encoder_options('json', sort_keys=True, indent=4)\<close>, which \<^verbatim>\<open>__toJSON\<close>
  and \<^verbatim>\<open>loadState\<close> call before they encode: the encoder writes the entries of every map
  in the order of their keys. It is given each collection sorted by name and each
  connection sorted by the identifiers of its entities.
\<close>

definition sort_keys :: "json_state \<Rightarrow> json_state" where
  "sort_keys js =
     \<lparr> doc_version = doc_version js, doc_sha256 = doc_sha256 js, doc_user = doc_user js,
       doc_datetime = doc_datetime js,
       doc_hosts = sort_key host_name (doc_hosts js),
       doc_benches = sort_key bench_name (doc_benches js),
       doc_connections =
         map (sort_key (\<lambda>item. entity_key (fst item))) (doc_connections js),
       doc_devices = sort_key device_name (doc_devices js),
       doc_instruments = sort_key instrument_name (doc_instruments js) \<rparr>"

definition json_encode :: "env \<Rightarrow> json_state \<Rightarrow> string" where
  "json_encode e js = json_dumps e (sort_keys js)"

text \<open>
  The file system holds each file as what \<^verbatim>\<open>file.read()\<close> and \<^verbatim>\<open>json.decode\<close> make of its
  bytes: a document, or a rejection by the decoder. A path stands for the file it
  names, so \<^verbatim>\<open>Path(fname).resolve()\<close> is the identity.
\<close>

datatype file_content = Json json_state | NotJson

type_synonym filesystem = "string \<rightharpoonup> file_content"

text \<open>
  The bytes of a file. Between the tokens of a text the decoder of Python's json module
  skips space, tab, line feed and carriage return alike, so what it returns depends on
  the text only up to which of these four characters stands at a place outside a
  string literal: \<^verbatim>\<open>json.decode\<close> is the decoder of the environment on the text with each
  of them written as a space. Inside a string literal, which a double quote opens and
  closes, a backslash escapes the character after it.
\<close>

fun normalise_whitespace :: "bool \<Rightarrow> string \<Rightarrow> string" where
  "normalise_whitespace in_string [] = []"
| "normalise_whitespace False (c # cs) =
     (if c = CHR 0x09 \<or> c = CHR 0x0A \<or> c = CHR 0x0D
      then CHR 0x20 # normalise_whitespace False cs
      else if c = CHR 0x22 then c # normalise_whitespace True cs
      else c # normalise_whitespace False cs)"
| "normalise_whitespace True (c # cs) =
     (if c = CHR 0x5C then
        (case cs of [] \<Rightarrow> [c] | d # ds \<Rightarrow> c # d # normalise_whitespace True ds)
      else if c = CHR 0x22 then c # normalise_whitespace False cs
      else c # normalise_whitespace True cs)"

definition json_decode :: "env \<Rightarrow> string \<Rightarrow> json_state option" where
  "json_decode e bytes = json_loads e (normalise_whitespace False bytes)"

definition read_file :: "env \<Rightarrow> string \<Rightarrow> file_content" where
  "read_file e bytes = (case json_decode e bytes of None \<Rightarrow> NotJson | Some js \<Rightarrow> Json js)"

definition disk_of_texts :: "env \<Rightarrow> (string \<rightharpoonup> string) \<Rightarrow> filesystem" where
  "disk_of_texts e texts = (\<lambda>path. map_option (read_file e) (texts path))"

subsection \<open>Construction, flattening and equality of a LabState\<close>

definition LabState_init :: "env \<Rightarrow> string option \<Rightarrow> LabState" where
  "LabState_init e fname =
     \<lparr> version = current_version, sha256 = None, user = None, datetime = None,
       filename_attr = Some (case fname of None \<Rightarrow> module_filename e | Some f \<Rightarrow> f),
       hosts = [], benches = [], connections = [], devices = [], instruments = [] \<rparr>"

definition filename :: "env \<Rightarrow> LabState \<Rightarrow> string" where
  "filename e self = (case filename_attr self of None \<Rightarrow> module_filename e | Some f \<Rightarrow> f)"

text \<open>
  Modelled from the spec: \<^verbatim>\<open>context.flatten(self, reset=True)\<close> goes through jsonpickle and
  the classes Hashable and TypedList of \<^verbatim>\<open>lightlab.laboratory\<close>, not part of the sources
  at hand. The spec gives its result as the flattened entity graph: the four
  collections, each a map keyed by name, and the list of connections, without the
  metadata, which \<^verbatim>\<open>__toJSON\<close> adds afterwards. The entries of a map are listed as the
  collection lists them; the encoder orders them by key.
\<close>

definition flatten :: "LabState \<Rightarrow> json_state" where
  "flatten self =
     \<lparr> doc_version = None, doc_sha256 = None, doc_user = None, doc_datetime = None,
       doc_hosts = hosts self, doc_benches = benches self,
       doc_connections = connections self, doc_devices = devices self,
       doc_instruments = instruments self \<rparr>"

text \<open>
  Modelled from the spec: \<^verbatim>\<open>context.restore(json_state, reset=True)\<close>, the inverse of the
  flattening ("resolved back into object references on load"): an instance with the
  collections of the document; the metadata attributes are those of the class until
  \<^verbatim>\<open>loadState\<close> sets them.
\<close>

definition restore :: "json_state \<Rightarrow> LabState" where
  "restore js =
     \<lparr> version = current_version, sha256 = None, user = None, datetime = None,
       filename_attr = None,
       hosts = doc_hosts js, benches = doc_benches js,
       connections = doc_connections js, devices = doc_devices js,
       instruments = doc_instruments js \<rparr>"

text \<open>
  Modelled from the spec: \<^verbatim>\<open>loaded_lab == self\<close> is \<^verbatim>\<open>Hashable.__eq__\<close>, not part of the
  sources at hand; the spec has it as "full equality", "structural equality across
  all entity collections and connections". Connections are dicts, compared as dicts.
\<close>

definition lab_eq :: "LabState \<Rightarrow> LabState \<Rightarrow> bool" where
  "lab_eq a b =
     (hosts a = hosts b \<and> benches a = benches b \<and> instruments a = instruments b \<and>
      devices a = devices b \<and> list_all2 dict_eq (connections a) (connections b))"

subsection \<open>Serialisation\<close>

definition toJSON :: "env \<Rightarrow> LabState \<Rightarrow> json_state" where
  "toJSON e self =
     (let json_state = flatten self;
          json_state = json_state\<lparr>doc_version := Some (version self)\<rparr>;
          json_state = json_state\<lparr>doc_sha256 := Some (hash_sha256 e (json_encode e json_state))\<rparr>;
          json_state = json_state\<lparr>doc_user := Some (getuser e)\<rparr>
      in json_state\<lparr>doc_datetime := Some (now_strftime e)\<rparr>)"

subsection \<open>patch_labstate\<close>

text \<open>
  The loops of the patch from version 1. Objects are values: an instrument listed under
  its bench and under its host, one object in the source, is met here as two values of
  one name. \<^verbatim>\<open>instruments[name].__dict__.update(instrument.__dict__)\<close> writes the attributes
  the later object carries over those of the registered one; an attribute that is \<open>None\<close>
  here is one the object does not carry. So the registered instrument keeps its bench
  when its host is set and its host when its bench is set, as the one object of the
  source does.
\<close>

definition dict_update_instrument :: "Instrument \<Rightarrow> Instrument \<Rightarrow> Instrument" where
  "dict_update_instrument registered instrument =
     Instrument (instrument_name instrument) (instrument_ports instrument)
       (case instrument_bench instrument of
          None \<Rightarrow> instrument_bench registered | Some b \<Rightarrow> Some b)
       (case instrument_host instrument of
          None \<Rightarrow> instrument_host registered | Some h \<Rightarrow> Some h)"

definition dict_update_device :: "Device \<Rightarrow> Device \<Rightarrow> Device" where
  "dict_update_device registered device =
     Device (device_name device) (device_ports device)
       (case device_bench device of None \<Rightarrow> device_bench registered | Some b \<Rightarrow> Some b)"

definition update_or_append ::
  "('a \<Rightarrow> string) \<Rightarrow> ('a \<Rightarrow> 'a \<Rightarrow> 'a) \<Rightarrow> 'a list \<Rightarrow> 'a \<Rightarrow> 'a list" where
  "update_or_append nm dict_update xs x =
     (if nm x \<in> set (map nm xs)
      then map (\<lambda>y. if nm y = nm x then dict_update y x else y) xs
      else xs @ [x])"

definition set_instrument_bench :: "Bench \<Rightarrow> Instrument \<Rightarrow> Instrument" where
  "set_instrument_bench b i =
     Instrument (instrument_name i) (instrument_ports i) (Some b) (instrument_host i)"

definition set_instrument_host :: "Host \<Rightarrow> Instrument \<Rightarrow> Instrument" where
  "set_instrument_host h i =
     Instrument (instrument_name i) (instrument_ports i) (instrument_bench i) (Some h)"

definition set_device_bench :: "Bench \<Rightarrow> Device \<Rightarrow> Device" where
  "set_device_bench b d = Device (device_name d) (device_ports d) (Some b)"

fun patch_benches ::
  "Bench list \<Rightarrow> Bench list \<times> Instrument list \<times> Device list
     \<Rightarrow> error + (Bench list \<times> Instrument list \<times> Device list)" where
  "patch_benches [] acc = Inr acc"
| "patch_benches (old_bench # rest) (bs, is, ds) =
     (let new_bench = Bench (bench_name old_bench) None None
      in case TypedList_append bench_name bs new_bench of
           Inl e \<Rightarrow> Inl e
         | Inr bs' \<Rightarrow>
             (case bench_dict_instruments old_bench of
                None \<Rightarrow> Inl (KeyError ''instruments'')
              | Some old_is \<Rightarrow>
                  (let is' = foldl (\<lambda>acc i. update_or_append instrument_name
                                               dict_update_instrument acc
                                               (set_instrument_bench new_bench i)) is old_is
                   in case bench_dict_devices old_bench of
                        None \<Rightarrow> Inl (KeyError ''devices'')
                      | Some old_ds \<Rightarrow>
                          patch_benches rest
                            (bs', is',
                             foldl (\<lambda>acc d. update_or_append device_name
                                              dict_update_device acc
                                              (set_device_bench new_bench d)) ds old_ds))))"

fun patch_hosts ::
  "Host list \<Rightarrow> Host list \<times> Instrument list \<Rightarrow> error + (Host list \<times> Instrument list)" where
  "patch_hosts [] acc = Inr acc"
| "patch_hosts (old_host # rest) (hs, is) =
     (let new_host = Host (host_name old_host) (mac_address old_host) (hostname old_host)
                          (os old_host) False None
      in case TypedList_append host_name hs new_host of
           Inl e \<Rightarrow> Inl e
         | Inr hs' \<Rightarrow>
             (case host_dict_instruments old_host of
                None \<Rightarrow> Inl (KeyError ''instruments'')
              | Some old_is \<Rightarrow>
                  patch_hosts rest
                    (hs', foldl (\<lambda>acc i. update_or_append instrument_name
                                            dict_update_instrument acc
                                            (set_instrument_host new_host i)) is old_is)))"

text \<open>
  The end of the patch: a new \<^verbatim>\<open>LabState()\<close> filled with the four lists, the LocalHost
  named cassander, and the connections of the old lab.
\<close>

definition rebuild_lab ::
  "env \<Rightarrow> connection list \<Rightarrow> Instrument list \<Rightarrow> Bench list \<Rightarrow> Device list \<Rightarrow> Host list
     \<Rightarrow> error + LabState" where
  "rebuild_lab e old_connections is bs ds hs =
     (let lab = LabState_init e None
      in case TypedList_extend instrument_name (instruments lab) is of
           Inl err \<Rightarrow> Inl err
         | Inr li \<Rightarrow>
      (case TypedList_extend bench_name (benches lab) bs of
           Inl err \<Rightarrow> Inl err
         | Inr lb \<Rightarrow>
      (case TypedList_extend device_name (devices lab) ds of
           Inl err \<Rightarrow> Inl err
         | Inr ld \<Rightarrow>
      (case TypedList_extend host_name (hosts lab) hs of
           Inl err \<Rightarrow> Inl err
         | Inr lh \<Rightarrow>
             Inr (lab\<lparr> instruments := li, benches := lb, devices := ld,
                       hosts := TypedList_setitem host_name lh ''cassander''
                                  (Host ''cassander'' None None None True None),
                       connections := old_connections \<rparr>)))))"

definition patch_labstate :: "env \<Rightarrow> int \<Rightarrow> LabState \<Rightarrow> error + LabState" where
  "patch_labstate e from_version old_lab =
     (if from_version = 1 then
        (if version old_lab \<noteq> from_version then Inl AssertionError
         else case patch_benches (benches old_lab) ([], [], []) of
                Inl err \<Rightarrow> Inl err
              | Inr (bs, is, ds) \<Rightarrow>
                  (case patch_hosts (hosts old_lab) ([], is) of
                     Inl err \<Rightarrow> Inl err
                   | Inr (hs, is') \<Rightarrow> rebuild_lab e (connections old_lab) is' bs ds hs))
      else Inl (NotImplementedError ''Patch not found''))"

subsection \<open>loadState\<close>

text \<open>Python's \<^verbatim>\<open>str\<close> of an integer, for the messages of the logger.\<close>

fun str_nat :: "nat \<Rightarrow> string" where
  "str_nat n =
     (if n < 10 then [char_of (48 + n)] else str_nat (n div 10) @ [char_of (48 + n mod 10)])"

definition str_int :: "int \<Rightarrow> string" where
  "str_int i = (if i < 0 then CHR ''-'' # str_nat (nat (- i)) else str_nat (nat i))"

definition attempting_patch :: "int \<Rightarrow> log_entry" where
  "attempting_patch i =
     Warning (''Attempting patch '' @ str_int i @ '' -> '' @ str_int current_version)"

text \<open>
  The loop \<^verbatim>\<open>for i in range(version, cls.__version__)\<close> inside its \<^verbatim>\<open>try\<close>: a
  NotImplementedError ends the loop and is logged, and the object restored so far is
  kept; any other exception leaves \<^verbatim>\<open>loadState\<close>.
\<close>

function patch_loop :: "env \<Rightarrow> int \<Rightarrow> LabState \<Rightarrow> (error + LabState) \<times> log_entry list" where
  "patch_loop e i restored_object =
     (if i < current_version then
        (case patch_labstate e i restored_object of
           Inl (NotImplementedError m) \<Rightarrow>
             (Inr restored_object, [attempting_patch i, Exception (NotImplementedError m)])
         | Inl err \<Rightarrow> (Inl err, [attempting_patch i])
         | Inr patched \<Rightarrow>
             (case patch_loop e (i + 1) patched of
                (r, lg) \<Rightarrow> (r, attempting_patch i # lg)))
      else (Inr restored_object, []))"
  by pat_completeness auto
termination
  by (relation "measure (\<lambda>(e, i, obj). nat (current_version - i))") auto

text \<open>
  The local variables \<^verbatim>\<open>filename\<close>, \<^verbatim>\<open>user\<close>, \<^verbatim>\<open>datetime\<close>, \<^verbatim>\<open>sha256\<close> and \<^verbatim>\<open>version\<close> of
  \<^verbatim>\<open>loadState\<close> carry the suffix \<open>_v\<close>, the plain names being attributes of LabState.
  \<^verbatim>\<open>json_state.pop(key)\<close> raises KeyError when the key is absent.
\<close>

definition loadState ::
  "env \<Rightarrow> filesystem \<Rightarrow> string option \<Rightarrow> bool \<Rightarrow> (error + LabState) \<times> log_entry list" where
  "loadState e fs fname validateHash =
     (let filename_v = (case fname of None \<Rightarrow> module_filename e | Some f \<Rightarrow> f)
      in case fs filename_v of
           None \<Rightarrow> (Inl FileNotFoundError, [])
         | Some NotJson \<Rightarrow> (Inl JSONDecodeError, [])
         | Some (Json json_state) \<Rightarrow>
        (case doc_user json_state of
           None \<Rightarrow> (Inl (KeyError ''__user__''), [])
         | Some user_v \<Rightarrow>
        (case doc_datetime json_state of
           None \<Rightarrow> (Inl (KeyError ''__datetime__''), [])
         | Some datetime_v \<Rightarrow>
        (case doc_sha256 json_state of
           None \<Rightarrow> (Inl (KeyError ''__sha256__''), [])
         | Some sha256_v \<Rightarrow>
        (let json_state = json_state\<lparr>doc_user := None, doc_datetime := None, doc_sha256 := None\<rparr>
         in if validateHash \<and> sha256_v \<noteq> hash_sha256 e (json_encode e json_state)
            then (Inl (RuntimeError_corrupted sha256_v
                         (hash_sha256 e (json_encode e json_state))), [])
            else
        (case doc_version json_state of
           None \<Rightarrow> (Inl (KeyError ''__version__''), [])
         | Some version_v \<Rightarrow>
             if version_v > current_version then
               (Inl RuntimeError_newer, [])
             else
               (let lg0 = (if version_v < current_version
                           then [Warning ''Loading older version of Labstate.''] else []);
                    restored_object = restore (json_state\<lparr>doc_version := None\<rparr>);
                    restored_object = restored_object
                      \<lparr> sha256 := Some sha256_v, version := version_v,
                        filename_attr := Some filename_v,
                        user := Some user_v, datetime := Some datetime_v \<rparr>
                in case patch_loop e version_v restored_object of
                     (r, lg) \<Rightarrow> (r, lg0 @ lg))))))))"

subsection \<open>saveState\<close>

text \<open>
  \<^verbatim>\<open>_saveState\<close>: the optional backup, then the overwrite of the file, then the new
  digest recorded in memory.
\<close>

definition backup_path :: "env \<Rightarrow> string \<Rightarrow> string" where
  "backup_path e filepath =
     path_with_name e filepath (path_stem e filepath @ ''_'' @ timestamp_string e @ ''.json'')"

definition private_saveState ::
  "env \<Rightarrow> filesystem \<Rightarrow> LabState \<Rightarrow> string option \<Rightarrow> bool
     \<Rightarrow> filesystem \<times> LabState \<times> log_entry list" where
  "private_saveState e fs self fname save_backup =
     (let fname = (case fname of None \<Rightarrow> filename e self | Some f \<Rightarrow> f);
          filepath = fname;
          (fs1, lg1) =
            (case fs filepath of
               Some content \<Rightarrow>
                 if save_backup
                 then (fs(backup_path e filepath \<mapsto> content),
                       [Debug (''Backup '' @ filepath @ '' to '' @ backup_path e filepath)])
                 else (fs, [])
             | None \<Rightarrow> (fs, []));
          json_state = toJSON e self
      in (fs1(filepath \<mapsto> Json json_state),
          self\<lparr>sha256 := doc_sha256 json_state\<rparr>,
          lg1 @ [Debug (fname @ [CHR 0x27] @ ''s sha: '' @ the (doc_sha256 json_state))]))"

definition aborting_save :: "string \<Rightarrow> log_entry" where
  "aborting_save fname =
     Error (fname @ [CHR 0x27] @
            ''s hash does not match with the one loaded in memory. Aborting save.'')"

definition saveState ::
  "env \<Rightarrow> filesystem \<Rightarrow> LabState \<Rightarrow> string option \<Rightarrow> bool
     \<Rightarrow> error option \<times> filesystem \<times> LabState \<times> log_entry list" where
  "saveState e fs self fname save_backup =
     (let fname = (case fname of None \<Rightarrow> filename e self | Some f \<Rightarrow> f)
      in case loadState e fs (Some fname) True of
           (Inl FileNotFoundError, lg) \<Rightarrow>
             (case private_saveState e fs self (Some fname) False of
                (fs', self', lg') \<Rightarrow>
                  (None, fs', self',
                   lg @ [Debug (''File not found: '' @ fname @ ''. Saving for the first time.'')]
                      @ lg'))
         | (Inl err, lg) \<Rightarrow> (Some err, fs, self, lg)
         | (Inr loaded_lab, lg) \<Rightarrow>
             (let (self1, lg1) =
                    (if sha256 self = None \<or> sha256 self = Some []
                     then (self\<lparr>sha256 := doc_sha256 (toJSON e self)\<rparr>,
                           [Debug ''Attempting to compare fabricated labstate vs. preloaded one.'',
                            Debug (''self.__sha256__: '' @ the (doc_sha256 (toJSON e self)))])
                     else (self, []))
              in if lab_eq loaded_lab self1
                 then (None, fs, self1,
                       lg @ lg1 @ [Debug ''Detected no changes in labstate. Nothing to do.''])
                 else if sha256 loaded_lab = sha256 self1
                 then (case private_saveState e fs self1 (Some fname) save_backup of
                         (fs', self', lg') \<Rightarrow> (None, fs', self', lg @ lg1 @ lg'))
                 else (None, fs, self1, lg @ lg1 @ [aborting_save fname])))"

declare patch_loop.simps [simp del]

subsection \<open>Notions used in the statements\<close>

text \<open>
  The invariant of the connections list: no (entity, port) pair is an item of two
  connections of the list.
\<close>

fun one_connection_per_port :: "connection list \<Rightarrow> bool" where
  "one_connection_per_port [] = True"
| "one_connection_per_port (c # cs) =
     ((\<forall>d \<in> set cs. set c \<inter> set d = {}) \<and> one_connection_per_port cs)"

text \<open>
  A batch of incoming connections in which two connections that share a pair are the
  same dict.
\<close>

fun batch_consistent :: "connection list \<Rightarrow> bool" where
  "batch_consistent [] = True"
| "batch_consistent (c # cs) =
     ((\<forall>d \<in> set cs. dict_eq c d \<or> set c \<inter> set d = {}) \<and> batch_consistent cs)"

definition shares_port :: "connection \<Rightarrow> connection \<Rightarrow> bool" where
  "shares_port x c = (set x \<inter> set c \<noteq> {})"

text \<open>
  The path \<^verbatim>\<open>loadState\<close> opens and the path \<^verbatim>\<open>saveState\<close> writes, after the defaults
  for \<^verbatim>\<open>None\<close>.
\<close>

definition path_of :: "env \<Rightarrow> string option \<Rightarrow> string" where
  "path_of e fname = (case fname of None \<Rightarrow> module_filename e | Some f \<Rightarrow> f)"

definition save_path :: "env \<Rightarrow> LabState \<Rightarrow> string option \<Rightarrow> string" where
  "save_path e self fname = (case fname of None \<Rightarrow> filename e self | Some f \<Rightarrow> f)"

text \<open>
  The document with \<^verbatim>\<open>__sha256__\<close>, \<^verbatim>\<open>__user__\<close> and \<^verbatim>\<open>__datetime__\<close> removed, and the
  digest recomputed over it.
\<close>

definition strip_metadata :: "json_state \<Rightarrow> json_state" where
  "strip_metadata js = js\<lparr>doc_user := None, doc_datetime := None, doc_sha256 := None\<rparr>"

definition recomputed_digest :: "env \<Rightarrow> json_state \<Rightarrow> string" where
  "recomputed_digest e js = hash_sha256 e (json_encode e (strip_metadata js))"

text \<open>
  The object \<^verbatim>\<open>loadState\<close> holds before the patches: the content of the document with
  the metadata of the document and the path it was read from.
\<close>

definition restored_object :: "string \<Rightarrow> json_state \<Rightarrow> LabState" where
  "restored_object path js =
     \<lparr> version = the (doc_version js), sha256 = doc_sha256 js, user = doc_user js,
       datetime = doc_datetime js, filename_attr = Some path,
       hosts = doc_hosts js, benches = doc_benches js, connections = doc_connections js,
       devices = doc_devices js, instruments = doc_instruments js \<rparr>"


text \<open>
  The in-memory state after \<^verbatim>\<open>saveState\<close> has cached a digest where none was
  recorded (\<^verbatim>\<open>if not self.__sha256__\<close>).
\<close>

definition recorded_digest :: "env \<Rightarrow> LabState \<Rightarrow> LabState" where
  "recorded_digest e self =
     (if sha256 self = None \<or> sha256 self = Some []
      then self\<lparr>sha256 := doc_sha256 (toJSON e self)\<rparr> else self)"

definition caching_log :: "env \<Rightarrow> LabState \<Rightarrow> log_entry list" where
  "caching_log e self =
     (if sha256 self = None \<or> sha256 self = Some []
      then [Debug ''Attempting to compare fabricated labstate vs. preloaded one.'',
            Debug (''self.__sha256__: '' @ the (doc_sha256 (toJSON e self)))]
      else [])"



subsection \<open>Example values\<close>

definition instrumentA :: Instrument where
  "instrumentA = Instrument ''instrumentA'' [''port1''] None None"

definition instrumentA_again :: Instrument where
  "instrumentA_again = Instrument ''instrumentA'' [''other''] None None"

definition deviceB :: Device where
  "deviceB = Device ''deviceB'' [''port2''] None"

definition deviceC :: Device where
  "deviceC = Device ''deviceC'' [''port3''] None"

definition conn_AB :: connection where
  "conn_AB = [(InstrumentKey instrumentA, ''port1''), (DeviceKey deviceB, ''port2'')]"

definition conn_AC :: connection where
  "conn_AC = [(InstrumentKey instrumentA, ''port1''), (DeviceKey deviceC, ''port3'')]"

definition hostA :: Host where
  "hostA = Host ''alpha'' None None None False None"

definition hostB :: Host where
  "hostB = Host ''beta'' None None None False None"

definition localhostA :: Host where
  "localhostA = Host ''alpha'' None None None True None"

definition localhostB :: Host where
  "localhostB = Host ''beta'' None None None True None"

definition empty_lab :: LabState where
  "empty_lab =
     \<lparr> version = 2, sha256 = None, user = None, datetime = None, filename_attr = None,
       hosts = [], benches = [], connections = [], devices = [], instruments = [] \<rparr>"


text \<open>
  The bytes of a file that holds the empty lab, in two parts around the one space that
  stands between the key \<^verbatim>\<open>"hosts"\<close> and its value, and the document they decode to.
\<close>

definition example_text_head :: string where
  \<open>example_text_head =
     ''{'' @ [CHR 0x0A] @
     ''    "__datetime__": "Monday, 01. January 2018 09:00AM",'' @ [CHR 0x0A] @
     ''    "__sha256__": "hosts:",'' @ [CHR 0x0A] @
     ''    "__user__": "operator",'' @ [CHR 0x0A] @
     ''    "__version__": 2,'' @ [CHR 0x0A] @
     ''    "benches": {},'' @ [CHR 0x0A] @
     ''    "connections": [],'' @ [CHR 0x0A] @
     ''    "devices": {},'' @ [CHR 0x0A] @
     ''    "hosts":''\<close>

definition example_text_tail :: string where
  \<open>example_text_tail =
     ''{},'' @ [CHR 0x0A] @
     ''    "instruments": {}'' @ [CHR 0x0A] @
     ''}''\<close>

definition example_document :: json_state where
  "example_document =
     \<lparr> doc_version = Some 2, doc_sha256 = Some ''hosts:'', doc_user = Some ''operator'',
       doc_datetime = Some ''Monday, 01. January 2018 09:00AM'',
       doc_hosts = [], doc_benches = [], doc_connections = [], doc_devices = [],
       doc_instruments = [] \<rparr>"

text \<open>
  An environment for the examples: the digest of a text is the text, the encoder
  writes the names of the hosts in the order it is given them, and the decoder knows
  the text of the empty lab.
\<close>

definition example_env :: env where
  "example_env =
     \<lparr> sha256_hexdigest = (\<lambda>s. s),
       json_dumps = (\<lambda>d. ''hosts:'' @ concat (map (\<lambda>h. host_name h @ '';'') (doc_hosts d))),
       json_loads =
         (\<lambda>t. if t = normalise_whitespace False
                          (example_text_head @ [CHR 0x20] @ example_text_tail)
              then Some example_document else None),
       getuser = ''operator'',
       now_strftime = ''Monday, 01. January 2018 09:00AM'',
       now_isoformat = ''2018-01-01T09:00:00'',
       path_stem = (\<lambda>p. p),
       path_with_name = (\<lambda>p n. n),
       module_filename = ''labstate-local.json'' \<rparr>"



definition document_of :: "LabState \<Rightarrow> json_state" where
  "document_of self = toJSON example_env self"

definition disk_with :: "json_state \<Rightarrow> filesystem" where
  "disk_with js = [''labstate.json'' \<mapsto> Json js]"

text \<open>
  A document of schema version 1: an instrument listed under its bench and under its
  host, no local host.
\<close>

definition bench_v1 :: Bench where
  "bench_v1 = Bench ''bench1'' (Some [Instrument ''keithley'' [''ChA''] None None]) (Some [])"

definition host_v1 :: Host where
  "host_v1 =
     Host ''gunther'' None None None False (Some [Instrument ''keithley'' [''ChA''] None None])"

definition document_v1 :: json_state where
  "document_v1 =
     document_of (empty_lab\<lparr>version := 1, hosts := [host_v1], benches := [bench_v1]\<rparr>)"

section \<open>Properties of the registry\<close>

subsection \<open>updateConnections\<close>

lemma check_if_port_is_not_connected_iff:
  "check_if_port_is_not_connected c k v \<longleftrightarrow> (k, v) \<notin> set c"
  by (induction c) (auto split: if_splits)

lemma verify_items_None:
  "verify_items c = None \<longleftrightarrow> (\<forall>(k, v) \<in> set c. v \<in> set (ports k))"
  by (induction c) (auto split: if_splits)

lemma verify_items_Some:
  "verify_items c = Some e \<Longrightarrow>
     \<exists>k v. e = RuntimeError_port v k \<and> (k, v) \<in> set c \<and> v \<notin> set (ports k)"
  by (induction c) (auto split: if_splits)

lemma verify_ports_None:
  "verify_ports cs = None \<longleftrightarrow> (\<forall>c \<in> set cs. \<forall>(k, v) \<in> set c. v \<in> set (ports k))"
proof (induction cs)
  case Nil
  then show ?case by simp
next
  case (Cons c cs)
  show ?case
  proof (cases "verify_items c")
    case None
    with Cons show ?thesis by (simp add: verify_items_None[symmetric])
  next
    case (Some e)
    then have "\<not> (\<forall>(k, v) \<in> set c. v \<in> set (ports k))"
      using verify_items_None[of c] by simp
    with Some show ?thesis by simp
  qed
qed

lemma verify_ports_Some:
  "verify_ports cs = Some e \<Longrightarrow>
     \<exists>c k v. e = RuntimeError_port v k \<and> c \<in> set cs \<and> (k, v) \<in> set c \<and> v \<notin> set (ports k)"
proof (induction cs)
  case Nil
  then show ?case by simp
next
  case (Cons c cs)
  show ?case
  proof (cases "verify_items c")
    case None
    with Cons show ?thesis by auto
  next
    case (Some e')
    with Cons.prems have "e' = e" by simp
    with Some verify_items_Some[of c e] show ?thesis by auto
  qed
qed

text \<open>
  C6. When some connection of the batch binds a port that is not one of the ports of
  its entity, \<^verbatim>\<open>updateConnections\<close> raises the RuntimeError "Port ... is not in ..."
  (the spec's InvalidPortError) for such a binding, after logging its message as an
  error, and the LabState, its connections list included, is exactly as before the
  call: the check of the whole batch comes before any change.
\<close>

theorem updateConnections_invalid_port:
  assumes "c \<in> set conns" and "(k, v) \<in> set c" and "v \<notin> set (ports k)"
  shows "\<exists>c' k' v'. c' \<in> set conns \<and> (k', v') \<in> set c' \<and> v' \<notin> set (ports k') \<and>
           updateConnections self conns =
             (Some (RuntimeError_port v' k'), self,
              [Error_message (RuntimeError_port v' k')])"
proof -
  from assms have "verify_ports conns \<noteq> None"
    by (auto simp: verify_ports_None)
  then obtain e where e: "verify_ports conns = Some e" by auto
  from verify_ports_Some[OF e] obtain c' k' v' where
    "e = RuntimeError_port v' k'" "c' \<in> set conns" "(k', v') \<in> set c'" "v' \<notin> set (ports k')"
    by blast
  with e show ?thesis by (auto simp: updateConnections_def)
qed

theorem updateConnections_invalid_port_witness:
  "\<exists>c' k' v'. c' \<in> set [[(InstrumentKey instrumentA, ''port9'')]] \<and> (k', v') \<in> set c' \<and>
     v' \<notin> set (ports k') \<and>
     updateConnections (empty_lab\<lparr>connections := [conn_AB]\<rparr>)
         [[(InstrumentKey instrumentA, ''port9'')]] =
       (Some (RuntimeError_port v' k'), empty_lab\<lparr>connections := [conn_AB]\<rparr>,
        [Error_message (RuntimeError_port v' k')])"
  using updateConnections_invalid_port[of "[(InstrumentKey instrumentA, ''port9'')]"
      "[[(InstrumentKey instrumentA, ''port9'')]]" "InstrumentKey instrumentA" "''port9''"
      "empty_lab\<lparr>connections := [conn_AB]\<rparr>"]
  by (simp add: instrumentA_def)

lemma remove_items_eq: "remove_items c cs = filter (\<lambda>x. \<not> shares_port x c) cs"
proof (induction c arbitrary: cs)
  case Nil
  then show ?case by (simp add: shares_port_def)
next
  case (Cons a c)
  obtain k v where a: "a = (k, v)" by (cases a)
  show ?case
    unfolding a by (simp add: Cons check_if_port_is_not_connected_iff shares_port_def)
qed

lemma remove_old_eq:
  "remove_old conns cs = filter (\<lambda>x. \<forall>c \<in> set conns. \<not> shares_port x c) cs"
proof (induction conns arbitrary: cs)
  case Nil
  then show ?case by simp
next
  case (Cons c conns)
  show ?case by (simp add: Cons remove_items_eq)
qed

lemma one_connection_per_port_filter:
  "one_connection_per_port cs \<Longrightarrow> one_connection_per_port (filter P cs)"
  by (induction cs) auto

lemma one_connection_per_port_snoc:
  "one_connection_per_port (cs @ [c]) \<longleftrightarrow>
     one_connection_per_port cs \<and> (\<forall>x \<in> set cs. set x \<inter> set c = {})"
  by (induction cs) auto

lemma add_new_one_connection_per_port:
  assumes "one_connection_per_port cs"
    and "\<forall>x \<in> set cs. \<forall>c \<in> set conns. dict_eq x c \<or> set x \<inter> set c = {}"
    and "batch_consistent conns"
  shows "one_connection_per_port (add_new conns cs)"
  using assms
proof (induction conns arbitrary: cs)
  case Nil
  then show ?case by simp
next
  case (Cons c conns)
  show ?case
  proof (cases "connection_in c cs")
    case True
    with Cons show ?thesis by simp
  next
    case False
    then have nodup: "\<forall>x \<in> set cs. \<not> dict_eq x c"
      by (auto simp: connection_in_def list_ex_iff dict_eq_def)
    with Cons.prems(2) have disj: "\<forall>x \<in> set cs. set x \<inter> set c = {}" by auto
    have "one_connection_per_port (add_new conns (cs @ [c]))"
    proof (rule Cons.IH)
      show "one_connection_per_port (cs @ [c])"
        using Cons.prems(1) disj by (simp add: one_connection_per_port_snoc)
      show "\<forall>x\<in>set (cs @ [c]). \<forall>c\<in>set conns. dict_eq x c \<or> set x \<inter> set c = {}"
        using Cons.prems(2,3) by auto
      show "batch_consistent conns" using Cons.prems(3) by simp
    qed
    with False show ?thesis by simp
  qed
qed

lemma add_new_prefix: "\<exists>ys. add_new conns cs = cs @ ys \<and> set ys \<subseteq> set conns"
proof (induction conns arbitrary: cs)
  case Nil
  then show ?case by simp
next
  case (Cons c conns)
  show ?case
  proof (cases "connection_in c cs")
    case True
    with Cons[of cs] show ?thesis by auto
  next
    case False
    from Cons[of "cs @ [c]"] obtain ys where
      "add_new conns (cs @ [c]) = (cs @ [c]) @ ys" "set ys \<subseteq> set conns"
      by blast
    with False show ?thesis by (intro exI[of _ "c # ys"]) auto
  qed
qed

lemma connection_in_append: "connection_in c cs \<Longrightarrow> connection_in c (cs @ ys)"
  by (auto simp: connection_in_def list_ex_iff)

lemma add_new_contains: "c \<in> set conns \<Longrightarrow> connection_in c (add_new conns cs)"
proof (induction conns arbitrary: cs)
  case Nil
  then show ?case by simp
next
  case (Cons a conns)
  show ?case
  proof (cases "c = a")
    case True
    let ?cs' = "if connection_in a cs then cs else cs @ [a]"
    have "connection_in a ?cs'"
      by (auto simp: connection_in_def list_ex_iff dict_eq_def)
    moreover obtain ys where "add_new conns ?cs' = ?cs' @ ys"
      using add_new_prefix[of conns ?cs'] by blast
    ultimately show ?thesis using True connection_in_append[of a ?cs' ys] by simp
  next
    case False
    with Cons show ?thesis by simp
  qed
qed

text \<open>
  C7, as the spec states it: after every successful call each (entity, port) pair is
  in at most one connection of the list. It fails for a batch whose own connections
  share a pair: from the empty list, the batch of instrumentA.port1 to deviceB.port2
  and instrumentA.port1 to deviceC.port3 is accepted and both connections are in the
  list.
\<close>

theorem updateConnections_shared_port_counterexample:
  "fst (updateConnections empty_lab [conn_AB, conn_AC]) = None \<and>
   \<not> one_connection_per_port
       (connections (fst (snd (updateConnections empty_lab [conn_AB, conn_AC]))))"
  by (simp add: instrumentA_def deviceB_def deviceC_def conn_AB_def conn_AC_def empty_lab_def
      updateConnections_def connection_in_def dict_eq_def)

text \<open>
  C7, amended. If the list has at most one connection for each (entity, port) pair
  before the call, and two connections of the incoming batch that share a pair are the
  same dict, then after a successful call the list has at most one connection for
  each pair; the list is the old one without the connections that share a pair with an
  incoming connection, followed by each incoming connection that is not yet there; so
  every incoming connection is in the list.
\<close>

theorem updateConnections_one_connection_per_port:
  assumes "fst (updateConnections self conns) = None"
    and "one_connection_per_port (connections self)"
    and "batch_consistent conns"
  shows "one_connection_per_port (connections (fst (snd (updateConnections self conns)))) \<and>
         connections (fst (snd (updateConnections self conns))) =
           add_new conns
             (filter (\<lambda>x. \<forall>c \<in> set conns. \<not> shares_port x c) (connections self)) \<and>
         (\<forall>c \<in> set conns.
            connection_in c (connections (fst (snd (updateConnections self conns)))))"
proof -
  from assms(1) have v: "verify_ports conns = None"
    by (auto simp: updateConnections_def split: option.splits)
  let ?cs1 = "filter (\<lambda>x. \<forall>c \<in> set conns. \<not> shares_port x c) (connections self)"
  have res: "connections (fst (snd (updateConnections self conns))) = add_new conns ?cs1"
    by (simp add: updateConnections_def v remove_old_eq Let_def)
  have "one_connection_per_port (add_new conns ?cs1)"
  proof (rule add_new_one_connection_per_port)
    show "one_connection_per_port ?cs1"
      using assms(2) by (rule one_connection_per_port_filter)
    show "\<forall>x\<in>set ?cs1. \<forall>c\<in>set conns. dict_eq x c \<or> set x \<inter> set c = {}"
      by (auto simp: shares_port_def)
    show "batch_consistent conns" by (rule assms(3))
  qed
  with res add_new_contains show ?thesis by auto
qed

theorem updateConnections_one_connection_per_port_witness:
  "fst (updateConnections (empty_lab\<lparr>connections := [conn_AB]\<rparr>) [conn_AC]) = None \<and>
   one_connection_per_port (connections (empty_lab\<lparr>connections := [conn_AB]\<rparr>)) \<and>
   batch_consistent [conn_AC] \<and>
   connections (fst (snd (updateConnections (empty_lab\<lparr>connections := [conn_AB]\<rparr>) [conn_AC])))
     = [conn_AC] \<and>
   one_connection_per_port
     (connections (fst (snd (updateConnections (empty_lab\<lparr>connections := [conn_AB]\<rparr>) [conn_AC]))))"
proof -
  have h1: "fst (updateConnections (empty_lab\<lparr>connections := [conn_AB]\<rparr>) [conn_AC]) = None"
    by (simp add: instrumentA_def deviceB_def deviceC_def conn_AB_def conn_AC_def empty_lab_def
        updateConnections_def)
  have h2: "one_connection_per_port (connections (empty_lab\<lparr>connections := [conn_AB]\<rparr>))"
    by (simp add: empty_lab_def)
  have h3: "batch_consistent [conn_AC]" by simp
  have r: "connections (fst (snd (updateConnections (empty_lab\<lparr>connections := [conn_AB]\<rparr>)
             [conn_AC]))) = [conn_AC]"
    by (simp add: instrumentA_def deviceB_def deviceC_def conn_AB_def conn_AC_def empty_lab_def
        updateConnections_def connection_in_def dict_eq_def)
  show ?thesis
    using h1 h2 h3 r updateConnections_one_connection_per_port[OF h1 h2 h3] by simp
qed

subsection \<open>updateHost\<close>

lemma scan_localhost_fst:
  "fst (scan_localhost hs ln) =
     (if filter is_LocalHost hs = [] then ln
      else Some (host_name (last (filter is_LocalHost hs))))"
  by (induction hs arbitrary: ln) (auto simp: split_beta Let_def)

lemma scan_localhost_name:
  assumes "\<exists>h \<in> set hs. is_LocalHost h"
  shows "\<exists>h \<in> set hs. is_LocalHost h \<and> fst (scan_localhost hs ln) = Some (host_name h)"
proof -
  from assms have ne: "filter is_LocalHost hs \<noteq> []"
    by (simp add: filter_empty_conv)
  then have "last (filter is_LocalHost hs) \<in> set (filter is_LocalHost hs)"
    by (rule last_in_set)
  with ne show ?thesis
    by (auto simp: scan_localhost_fst)
qed

lemma update_hosts_loop_rejects:
  assumes "\<forall>h \<in> set news. is_LocalHost h \<and> host_name h \<noteq> n"
  shows "update_hosts_loop old news (Some n, hs, lg) =
           (Some n, hs, lg @ map (\<lambda>h. Warning (not_updating_message n (host_name h))) news)"
  using assms by (induction news arbitrary: lg) auto

text \<open>
  C8. When the hosts of the LabState include a LocalHost, upserting hosts that are
  LocalHosts with a name other than that of every LocalHost already there leaves the
  LabState, and so the hosts collection, as it was: each incoming host is rejected,
  neither inserted nor put in place of the first, and the call returns with one
  warning "Localhost is already present ... Not updating host ..." for each, naming the
  LocalHost that remains, after the warnings of the scan of the existing hosts.
\<close>

theorem updateHost_second_localhost_rejected:
  assumes "\<exists>h \<in> set (hosts self). is_LocalHost h"
    and "\<forall>new_host \<in> set new_hosts. is_LocalHost new_host \<and>
           (\<forall>h \<in> set (hosts self). is_LocalHost h \<longrightarrow> host_name h \<noteq> host_name new_host)"
  shows "\<exists>h \<in> set (hosts self). is_LocalHost h \<and>
           updateHost self new_hosts =
             (self, snd (scan_localhost (hosts self) None) @
                    map (\<lambda>new_host. Warning (not_updating_message (host_name h)
                                               (host_name new_host)))
                        new_hosts)"
proof -
  from scan_localhost_name[OF assms(1), of None] obtain h where
    h: "h \<in> set (hosts self)" "is_LocalHost h"
       "fst (scan_localhost (hosts self) None) = Some (host_name h)"
    by blast
  from assms(2) h(1,2) have rej:
    "\<forall>n \<in> set new_hosts. is_LocalHost n \<and> host_name n \<noteq> host_name h"
    by metis
  obtain l where sc: "scan_localhost (hosts self) None = (Some (host_name h), l)"
    using h(3) by (cases "scan_localhost (hosts self) None") auto
  have "updateHost self new_hosts =
          (self, l @ map (\<lambda>n. Warning (not_updating_message (host_name h) (host_name n)))
                       new_hosts)"
    by (simp add: updateHost_def sc update_hosts_loop_rejects[OF rej])
  with h(1,2) sc show ?thesis by auto
qed

theorem updateHost_second_localhost_rejected_witness:
  "updateHost (empty_lab\<lparr>hosts := [localhostA]\<rparr>) [localhostB] =
     (empty_lab\<lparr>hosts := [localhostA]\<rparr>, [Warning (not_updating_message ''alpha'' ''beta'')])"
  using updateHost_second_localhost_rejected[of "empty_lab\<lparr>hosts := [localhostA]\<rparr>"
      "[localhostB]"]
  by (simp add: localhostA_def localhostB_def empty_lab_def)

subsection \<open>deleteInstrumentFromName and insertInstrument\<close>

text \<open>
  C9. When the number of instruments of the given name is not one, none or several,
  \<^verbatim>\<open>deleteInstrumentFromName\<close> raises (the AssertionError of its \<^verbatim>\<open>assert\<close>, the spec's
  NotFoundError) and the LabState, its instruments included, is unchanged; when it is
  one, the call returns and the instruments are the former ones without the
  instrument of that name.
\<close>

theorem deleteInstrumentFromName_exactly_one:
  "(length (filter (\<lambda>x. instrument_name x = name) (instruments self)) \<noteq> 1 \<longrightarrow>
      deleteInstrumentFromName self name = (Some AssertionError, self)) \<and>
   (length (filter (\<lambda>x. instrument_name x = name) (instruments self)) = 1 \<longrightarrow>
      deleteInstrumentFromName self name =
        (None, self\<lparr>instruments :=
                       filter (\<lambda>x. instrument_name x \<noteq> name) (instruments self)\<rparr>))"
  by (simp add: deleteInstrumentFromName_def TypedList_delitem_def Let_def)

theorem deleteInstrumentFromName_exactly_one_witness:
  "deleteInstrumentFromName (empty_lab\<lparr>instruments := [instrumentA]\<rparr>) ''keithley'' =
     (Some AssertionError, empty_lab\<lparr>instruments := [instrumentA]\<rparr>) \<and>
   deleteInstrumentFromName (empty_lab\<lparr>instruments := [instrumentA]\<rparr>) ''instrumentA'' =
     (None, empty_lab\<lparr>instruments := []\<rparr>)"
  using deleteInstrumentFromName_exactly_one[of "''keithley''"
      "empty_lab\<lparr>instruments := [instrumentA]\<rparr>"]
    deleteInstrumentFromName_exactly_one[of "''instrumentA''"
      "empty_lab\<lparr>instruments := [instrumentA]\<rparr>"]
  by (simp add: instrumentA_def empty_lab_def)

text \<open>
  C10. When the name of the instrument is already the name of an instrument of the
  LabState, \<^verbatim>\<open>insertInstrument\<close> raises at its first statement, the append, and the
  LabState is unchanged: instruments, benches and hosts are as before, nothing being
  registered and nothing logged.
\<close>

theorem insertInstrument_duplicate:
  assumes "instrument_name instrument \<in> set (map instrument_name (instruments self))"
  shows "insertInstrument self instrument =
           (Some (RuntimeError_exists (instrument_name instrument)), self, [])"
  using assms by (simp add: insertInstrument_def TypedList_append_def)

theorem insertInstrument_duplicate_witness:
  "insertInstrument (empty_lab\<lparr>instruments := [instrumentA]\<rparr>) instrumentA_again =
     (Some (RuntimeError_exists ''instrumentA''),
      empty_lab\<lparr>instruments := [instrumentA]\<rparr>, [])"
  using insertInstrument_duplicate[of instrumentA_again
      "empty_lab\<lparr>instruments := [instrumentA]\<rparr>"]
  by (simp add: instrumentA_def instrumentA_again_def empty_lab_def)

section \<open>Properties of the persistence\<close>

subsection \<open>The patches\<close>

lemma patch_loop_current: "patch_loop e current_version obj = (Inr obj, [])"
  by (subst patch_loop.simps) simp

lemma patch_loop_not_found:
  "i < 1 \<Longrightarrow> patch_loop e i obj =
     (Inr obj, [attempting_patch i, Exception (NotImplementedError ''Patch not found'')])"
  by (subst patch_loop.simps) (simp add: patch_labstate_def current_version_def)

lemma TypedList_append_error:
  "TypedList_append nm xs x = Inl err \<Longrightarrow> \<forall>m. err \<noteq> NotImplementedError m"
  by (auto simp: TypedList_append_def split: if_splits)

lemma TypedList_extend_error:
  "TypedList_extend nm xs ys = Inl err \<Longrightarrow> \<forall>m. err \<noteq> NotImplementedError m"
proof (induction ys arbitrary: xs)
  case Nil
  then show ?case by simp
next
  case (Cons y ys)
  show ?case
  proof (cases "TypedList_append nm xs y")
    case (Inl e)
    with Cons.prems have "e = err" by simp
    with Inl show ?thesis by (auto dest: TypedList_append_error)
  next
    case (Inr xs')
    with Cons show ?thesis by simp
  qed
qed

lemma patch_benches_error:
  "patch_benches obs acc = Inl err \<Longrightarrow> \<forall>m. err \<noteq> NotImplementedError m"
proof (induction obs acc rule: patch_benches.induct)
  case (1 acc)
  then show ?case by simp
next
  case (2 old_bench rest bs "is" ds)
  then show ?case
    by (auto simp: Let_def split: sum.splits option.splits dest: TypedList_append_error)
qed

lemma patch_hosts_error:
  "patch_hosts ohs acc = Inl err \<Longrightarrow> \<forall>m. err \<noteq> NotImplementedError m"
proof (induction ohs acc rule: patch_hosts.induct)
  case (1 acc)
  then show ?case by simp
next
  case (2 old_host rest hs "is")
  then show ?case
    by (auto simp: Let_def split: sum.splits option.splits dest: TypedList_append_error)
qed

lemma rebuild_lab_error:
  "rebuild_lab e oc is bs ds hs = Inl err \<Longrightarrow> \<forall>m. err \<noteq> NotImplementedError m"
  by (auto simp: rebuild_lab_def Let_def split: sum.splits dest: TypedList_extend_error)

lemma rebuild_lab_version:
  "rebuild_lab e oc is bs ds hs = Inr lab \<Longrightarrow> version lab = current_version"
  by (auto simp: rebuild_lab_def Let_def LabState_init_def split: sum.splits)

lemma patch_labstate_1_error:
  "patch_labstate e 1 obj = Inl err \<Longrightarrow> \<forall>m. err \<noteq> NotImplementedError m"
  by (auto simp: patch_labstate_def split: if_splits sum.splits prod.splits
      dest: patch_benches_error patch_hosts_error rebuild_lab_error)

lemma patch_labstate_1_version:
  "patch_labstate e 1 obj = Inr lab \<Longrightarrow> version lab = current_version"
  by (auto simp: patch_labstate_def split: if_splits sum.splits prod.splits
      dest: rebuild_lab_version)

lemma patch_loop_1:
  assumes "patch_loop e 1 obj = (Inr S, lg)"
  shows "version S = current_version"
proof (cases "patch_labstate e 1 obj")
  case (Inl err)
  from patch_labstate_1_error[OF Inl] have "\<forall>m. err \<noteq> NotImplementedError m" .
  then have "fst (patch_loop e 1 obj) = Inl err"
    by (subst patch_loop.simps) (cases err; simp add: Inl current_version_def)
  with assms show ?thesis by simp
next
  case (Inr lab)
  have "patch_loop e 2 lab = (Inr lab, [])"
    using patch_loop_current[of e lab] by (simp add: current_version_def)
  then have "patch_loop e 1 obj = (Inr lab, [attempting_patch 1])"
    by (subst patch_loop.simps) (simp add: Inr current_version_def)
  with assms patch_labstate_1_version[OF Inr] show ?thesis by simp
qed

subsection \<open>loadState\<close>

lemma loadState_unfold:
  assumes "fs (path_of e fname) = Some (Json js)"
    and "doc_user js = Some u" and "doc_datetime js = Some d" and "doc_sha256 js = Some stored"
  shows "loadState e fs fname validateHash =
     (if validateHash \<and> stored \<noteq> recomputed_digest e js
      then (Inl (RuntimeError_corrupted stored (recomputed_digest e js)), [])
      else case doc_version js of
             None \<Rightarrow> (Inl (KeyError ''__version__''), [])
           | Some v \<Rightarrow>
               if v > current_version then (Inl RuntimeError_newer, [])
               else (case patch_loop e v (restored_object (path_of e fname) js) of
                       (r, lg) \<Rightarrow>
                         (r, (if v < current_version
                              then [Warning ''Loading older version of Labstate.''] else [])
                             @ lg)))"
  using assms
  by (auto simp: loadState_def path_of_def[symmetric] recomputed_digest_def strip_metadata_def
      restored_object_def restore_def Let_def split: option.splits)

lemma loadState_versions_cases:
  assumes "fs (path_of e fname) = Some (Json js)"
    and "doc_user js = Some u" and "doc_datetime js = Some d" and "doc_sha256 js = Some stored"
    and "doc_version js = Some v"
    and "validateHash \<longrightarrow> stored = recomputed_digest e js"
  shows "(v < 1 \<longrightarrow>
            loadState e fs fname validateHash =
              (Inr (restored_object (path_of e fname) js),
               [Warning ''Loading older version of Labstate.'', attempting_patch v,
                Exception (NotImplementedError ''Patch not found'')])) \<and>
         (1 \<le> v \<longrightarrow> (\<forall>S. fst (loadState e fs fname validateHash) = Inr S
                          \<longrightarrow> version S = current_version)) \<and>
         (v = current_version \<longrightarrow>
            loadState e fs fname validateHash =
              (Inr (restored_object (path_of e fname) js), [])) \<and>
         (current_version < v \<longrightarrow>
            loadState e fs fname validateHash = (Inl RuntimeError_newer, []))"
proof -
  note unf = loadState_unfold[where fs=fs and e=e and fname=fname
      and validateHash=validateHash, OF assms(1-4)]
  have a: "v < 1 \<longrightarrow>
            loadState e fs fname validateHash =
              (Inr (restored_object (path_of e fname) js),
               [Warning ''Loading older version of Labstate.'', attempting_patch v,
                Exception (NotImplementedError ''Patch not found'')])"
    using assms(5,6) by (auto simp add: unf patch_loop_not_found current_version_def)
  have c: "v = current_version \<longrightarrow>
            loadState e fs fname validateHash =
              (Inr (restored_object (path_of e fname) js), [])"
    using assms(5,6) by (auto simp add: unf patch_loop_current)
  have d: "current_version < v \<longrightarrow>
            loadState e fs fname validateHash = (Inl RuntimeError_newer, [])"
    using assms(5,6) by (auto simp add: unf)
  have b: "1 \<le> v \<longrightarrow> (\<forall>S. fst (loadState e fs fname validateHash) = Inr S
                          \<longrightarrow> version S = current_version)"
  proof (intro impI allI)
    fix S
    assume v1: "1 \<le> v" and r: "fst (loadState e fs fname validateHash) = Inr S"
    from r d have "v \<le> current_version" by (cases "current_version < v") auto
    with v1 have "v = 1 \<or> v = current_version" by (auto simp: current_version_def)
    then show "version S = current_version"
    proof
      assume "v = current_version"
      with c r assms(5) show ?thesis by (auto simp add: restored_object_def)
    next
      assume v: "v = 1"
      obtain r' lg where pl: "patch_loop e 1 (restored_object (path_of e fname) js) = (r', lg)"
        by (cases "patch_loop e 1 (restored_object (path_of e fname) js)")
      with r assms(5,6) v have "r' = Inr S"
        by (auto simp add: unf current_version_def)
      with pl patch_loop_1 show ?thesis by blast
    qed
  qed
  from a b c d show ?thesis by blast
qed

subsection \<open>Serialisation\<close>













lemma lab_eq_sha256_update: "lab_eq l (self\<lparr>sha256 := x\<rparr>) = lab_eq l self"
  by (simp add: lab_eq_def)

subsection \<open>The examples, evaluated\<close>

lemma patch_loop_0:
  "patch_loop e 0 obj =
     (Inr obj, [attempting_patch 0, Exception (NotImplementedError ''Patch not found'')])"
  by (rule patch_loop_not_found) simp

lemma patch_loop_2: "patch_loop e 2 obj = (Inr obj, [])"
  using patch_loop_current[of e obj] by (simp add: current_version_def)

lemma patch_loop_1_patched:
  "patch_labstate e 1 obj = Inr lab \<Longrightarrow> patch_loop e 1 obj = (Inr lab, [attempting_patch 1])"
  by (subst patch_loop.simps) (simp add: patch_loop_2 current_version_def)

lemmas example_defs = example_env_def hash_sha256_def json_encode_def sort_keys_def toJSON_def
  flatten_def document_of_def disk_with_def empty_lab_def hostA_def hostB_def

lemma patch_labstate_v1_example:
  "patch_labstate example_env 1 (restored_object ''labstate.json'' document_v1) =
     Inr \<lparr> version = 2, sha256 = None, user = None, datetime = None,
           filename_attr = Some ''labstate-local.json'',
           hosts = [Host ''gunther'' None None None False None,
                    Host ''cassander'' None None None True None],
           benches = [Bench ''bench1'' None None], connections = [], devices = [],
           instruments = [Instrument ''keithley'' [''ChA''] (Some (Bench ''bench1'' None None))
                            (Some (Host ''gunther'' None None None False None))] \<rparr>"
  by (simp add: example_defs restored_object_def patch_labstate_def document_v1_def bench_v1_def
      host_v1_def rebuild_lab_def LabState_init_def TypedList_append_def TypedList_setitem_def
      update_or_append_def dict_update_instrument_def set_instrument_bench_def
      set_instrument_host_def current_version_def Let_def)

lemma document_v1_fields:
  "doc_user document_v1 = Some ''operator''"
  "doc_datetime document_v1 = Some ''Monday, 01. January 2018 09:00AM''"
  "doc_sha256 document_v1 = Some ''hosts:gunther;''"
  "doc_version document_v1 = Some 1"
  "recomputed_digest example_env document_v1 = ''hosts:gunther;''"
  by (simp_all add: example_defs document_v1_def host_v1_def recomputed_digest_def
      strip_metadata_def)

text \<open>
  The document of version 1 loads at version 2, its instrument moved to the
  instruments of the lab with its bench and its host both set, and one LocalHost added.
\<close>

lemma loadState_v1_example:
  "loadState example_env (disk_with document_v1) (Some ''labstate.json'') True =
     (Inr \<lparr> version = 2, sha256 = None, user = None, datetime = None,
           filename_attr = Some ''labstate-local.json'',
           hosts = [Host ''gunther'' None None None False None,
                    Host ''cassander'' None None None True None],
           benches = [Bench ''bench1'' None None], connections = [], devices = [],
           instruments = [Instrument ''keithley'' [''ChA''] (Some (Bench ''bench1'' None None))
                            (Some (Host ''gunther'' None None None False None))] \<rparr>,
      [Warning ''Loading older version of Labstate.'', attempting_patch 1])"
proof -
  have f: "disk_with document_v1 (path_of example_env (Some ''labstate.json''))
             = Some (Json document_v1)"
    by (simp add: disk_with_def path_of_def)
  show ?thesis
    by (simp add: loadState_unfold[where fs="disk_with document_v1" and e=example_env
          and fname="Some ''labstate.json''", OF f document_v1_fields(1-3)]
        document_v1_fields path_of_def current_version_def
        patch_loop_1_patched[OF patch_labstate_v1_example])
qed

subsection \<open>The claims on saveState and loadState\<close>

text \<open>
  C1, as the spec states it: when the recorded digest differs from the digest of the
  document on disk and the contents differ, \<^verbatim>\<open>saveState\<close> surfaces a ConflictError. It
  fails: with the lab of host alpha on disk and, in memory, a lab of host beta whose
  recorded digest is another one, both conditions hold and \<^verbatim>\<open>saveState\<close> returns without
  raising.
\<close>

theorem saveState_conflict_no_exception_counterexample:
  "sha256 (empty_lab\<lparr>sha256 := Some ''hosts:'', hosts := [hostB]\<rparr>)
     \<noteq> doc_sha256 (document_of (empty_lab\<lparr>hosts := [hostA]\<rparr>)) \<and>
   \<not> lab_eq (restored_object ''labstate.json'' (document_of (empty_lab\<lparr>hosts := [hostA]\<rparr>)))
        (empty_lab\<lparr>sha256 := Some ''hosts:'', hosts := [hostB]\<rparr>) \<and>
   fst (saveState example_env (disk_with (document_of (empty_lab\<lparr>hosts := [hostA]\<rparr>)))
          (empty_lab\<lparr>sha256 := Some ''hosts:'', hosts := [hostB]\<rparr>)
          (Some ''labstate.json'') True) = None"
  by (simp add: example_defs saveState_def loadState_def
      restore_def restored_object_def lab_eq_def current_version_def patch_loop_2 Let_def)

text \<open>
  C1, amended. When the document at the target path loads, the loaded state is not
  equal to the state in memory, and the digest of the loaded state differs from the
  digest recorded in memory (the digest computed now when none was recorded),
  \<^verbatim>\<open>saveState\<close> raises nothing: it logs the error "...'s hash does not match with the one
  loaded in memory. Aborting save." with the path, after the entries of the load and of
  the caching, and returns; the file system is unchanged, no file written and no
  backup made, and the state in memory is unchanged but for the cached digest.
\<close>

theorem saveState_conflict_is_logged:
  assumes "loadState e fs (Some (save_path e self fname)) True = (Inr loaded_lab, lg)"
    and "\<not> lab_eq loaded_lab self"
    and "sha256 loaded_lab \<noteq> sha256 (recorded_digest e self)"
  shows "saveState e fs self fname save_backup =
           (None, fs, recorded_digest e self,
            lg @ caching_log e self @ [aborting_save (save_path e self fname)])"
proof (cases "sha256 self = None \<or> sha256 self = Some []")
  case True
  then have r: "recorded_digest e self = self\<lparr>sha256 := doc_sha256 (toJSON e self)\<rparr>"
    by (simp add: recorded_digest_def)
  show ?thesis
    using assms True unfolding r
    by (simp add: saveState_def save_path_def Let_def lab_eq_sha256_update caching_log_def)
next
  case False
  then have r: "recorded_digest e self = self"
    by (auto simp add: recorded_digest_def)
  show ?thesis
    using assms False unfolding r
    by (auto simp add: saveState_def save_path_def Let_def caching_log_def)
qed

theorem saveState_conflict_is_logged_witness:
  "saveState example_env (disk_with (document_of (empty_lab\<lparr>hosts := [hostA]\<rparr>)))
     (empty_lab\<lparr>sha256 := Some ''hosts:'', hosts := [hostB]\<rparr>) (Some ''labstate.json'') True =
   (None, disk_with (document_of (empty_lab\<lparr>hosts := [hostA]\<rparr>)),
    empty_lab\<lparr>sha256 := Some ''hosts:'', hosts := [hostB]\<rparr>,
    [aborting_save ''labstate.json''])"
proof -
  let ?fs = "disk_with (document_of (empty_lab\<lparr>hosts := [hostA]\<rparr>))"
  let ?self = "empty_lab\<lparr>sha256 := Some ''hosts:'', hosts := [hostB]\<rparr>"
  let ?loaded = "restored_object ''labstate.json'' (document_of (empty_lab\<lparr>hosts := [hostA]\<rparr>))"
  have h1: "loadState example_env ?fs
              (Some (save_path example_env ?self (Some ''labstate.json''))) True
              = (Inr ?loaded, [])"
    by (simp add: example_defs loadState_def restore_def restored_object_def
        current_version_def patch_loop_2 Let_def save_path_def)
  have h2: "\<not> lab_eq ?loaded ?self"
    by (simp add: example_defs restored_object_def lab_eq_def)
  have h3: "sha256 ?loaded \<noteq> sha256 (recorded_digest example_env ?self)"
    by (simp add: example_defs restored_object_def recorded_digest_def)
  have r: "recorded_digest example_env ?self = ?self"
    by (simp add: recorded_digest_def)
  show ?thesis
    using saveState_conflict_is_logged[OF h1 h2 h3, of True]
    by (simp add: r save_path_def caching_log_def)
qed



text \<open>
  C3, as the spec states it: a step of the chain without a patch makes the load fail,
  and \<^verbatim>\<open>loadState\<close> never returns a LabState at a version other than the current one.
  It fails: a document stored at version 0, for which no patch exists, is loaded and
  returned at version 0.
\<close>

theorem loadState_missing_patch_counterexample:
  "map_sum (\<lambda>err. ()) version
     (fst (loadState example_env (disk_with (document_of (empty_lab\<lparr>version := 0\<rparr>)))
             (Some ''labstate.json'') True)) = Inr 0 \<and>
   current_version \<noteq> 0"
  by (simp add: example_env_def hash_sha256_def json_encode_def sort_keys_def toJSON_def
      flatten_def document_of_def disk_with_def empty_lab_def loadState_def restore_def
      current_version_def patch_loop_0 Let_def)

text \<open>
  C3, amended. For a document that carries the four metadata keys and passes the
  digest check (or is loaded without it): stored at a version below 1, where the
  first step has no patch, the load does not fail; the NotImplementedError is caught
  and logged and the restored object is returned as it is, at the stored version.
  Stored at version 1 or above, every LabState that \<^verbatim>\<open>loadState\<close> returns is at the
  current version; at the current version the restored object is returned with
  nothing logged; above the current version the load raises the RuntimeError "Stored
  Labstate version is newer than current software".
\<close>

theorem loadState_missing_patch_is_logged:
  assumes "fs (path_of e fname) = Some (Json js)"
    and "doc_user js = Some u" and "doc_datetime js = Some d" and "doc_sha256 js = Some stored"
    and "doc_version js = Some v"
    and "validateHash \<longrightarrow> stored = recomputed_digest e js"
  shows "(v < 1 \<longrightarrow>
            loadState e fs fname validateHash =
              (Inr (restored_object (path_of e fname) js),
               [Warning ''Loading older version of Labstate.'', attempting_patch v,
                Exception (NotImplementedError ''Patch not found'')])) \<and>
         (1 \<le> v \<longrightarrow> (\<forall>S. fst (loadState e fs fname validateHash) = Inr S
                          \<longrightarrow> version S = current_version)) \<and>
         (v = current_version \<longrightarrow>
            loadState e fs fname validateHash =
              (Inr (restored_object (path_of e fname) js), [])) \<and>
         (current_version < v \<longrightarrow>
            loadState e fs fname validateHash = (Inl RuntimeError_newer, []))"
  using assms by (rule loadState_versions_cases)

theorem loadState_missing_patch_is_logged_witness:
  "loadState example_env (disk_with (document_of (empty_lab\<lparr>version := 0\<rparr>)))
     (Some ''labstate.json'') True =
     (Inr (restored_object ''labstate.json'' (document_of (empty_lab\<lparr>version := 0\<rparr>))),
      [Warning ''Loading older version of Labstate.'', attempting_patch 0,
       Exception (NotImplementedError ''Patch not found'')]) \<and>
   map_sum (\<lambda>err. ()) version
     (fst (loadState example_env (disk_with document_v1) (Some ''labstate.json'') True))
     = Inr current_version"
proof -
  have f0: "disk_with (document_of (empty_lab\<lparr>version := 0\<rparr>))
              (path_of example_env (Some ''labstate.json''))
            = Some (Json (document_of (empty_lab\<lparr>version := 0\<rparr>)))"
    by (simp add: disk_with_def path_of_def)
  have d0: "doc_user (document_of (empty_lab\<lparr>version := 0\<rparr>)) = Some ''operator''"
    "doc_datetime (document_of (empty_lab\<lparr>version := 0\<rparr>))
       = Some ''Monday, 01. January 2018 09:00AM''"
    "doc_sha256 (document_of (empty_lab\<lparr>version := 0\<rparr>)) = Some ''hosts:''"
    "doc_version (document_of (empty_lab\<lparr>version := 0\<rparr>)) = Some 0"
    by (simp_all add: example_defs)
  have ok0: "True \<longrightarrow>
      ''hosts:'' = recomputed_digest example_env (document_of (empty_lab\<lparr>version := 0\<rparr>))"
    by (simp add: example_defs recomputed_digest_def strip_metadata_def)
  have f1: "disk_with document_v1 (path_of example_env (Some ''labstate.json''))
              = Some (Json document_v1)"
    by (simp add: disk_with_def path_of_def)
  have ok1: "True \<longrightarrow> ''hosts:gunther;'' = recomputed_digest example_env document_v1"
    by (simp add: document_v1_fields)
  show ?thesis
    using loadState_missing_patch_is_logged[
        where fs="disk_with (document_of (empty_lab\<lparr>version := 0\<rparr>))"
        and e=example_env and fname="Some ''labstate.json''", OF f0 d0 ok0]
      loadState_missing_patch_is_logged[where fs="disk_with document_v1"
        and e=example_env and fname="Some ''labstate.json''",
        OF f1 document_v1_fields(1-4) ok1]
    by (simp add: path_of_def loadState_v1_example)
qed






end
